theory Spec2Isabelle
  imports Complex_Main "HOL-Library.Multiset"
begin

section \<open>JavaScript values and exceptions\<close>

text \<open>
  The dashboard is JavaScript. A value that travels through the gateway is a parsed JSON
  body or an object literal of the source; \<open>JUndefined\<close> is the result of reading a
  property that is not there. Numbers are the reals the literals denote (JSON has no NaN).
  An object is its list of properties, looked up by name.
\<close>

datatype jsval =
    JUndefined
  | JNull
  | JBool bool
  | JNum real
  | JStr string
  | JArr "jsval list"
  | JObj "(string \<times> jsval) list"

text \<open>What a \<open>throw\<close> or a rejected promise carries: the constructor and the message.\<close>

datatype js_error = Error string | TypeError string | SyntaxError string

fun message :: "js_error \<Rightarrow> string" where
  "message (Error m) = m"
| "message (TypeError m) = m"
| "message (SyntaxError m) = m"

text \<open>
  \<open>v.k\<close>: reading a property of \<open>null\<close> or \<open>undefined\<close> throws a TypeError; a property
  that an object does not have reads as \<open>undefined\<close>; arrays and strings have \<open>length\<close>.
\<close>

fun getProp :: "jsval \<Rightarrow> string \<Rightarrow> js_error + jsval" where
  "getProp JUndefined k = Inl (TypeError (''Cannot read properties of undefined (reading '' @ k @ '')''))"
| "getProp JNull k = Inl (TypeError (''Cannot read properties of null (reading '' @ k @ '')''))"
| "getProp (JObj kvs) k = Inr (case map_of kvs k of None \<Rightarrow> JUndefined | Some v \<Rightarrow> v)"
| "getProp (JArr xs) k = Inr (if k = ''length'' then JNum (real (length xs)) else JUndefined)"
| "getProp (JStr s) k = Inr (if k = ''length'' then JNum (real (length s)) else JUndefined)"
| "getProp (JBool b) k = Inr JUndefined"
| "getProp (JNum x) k = Inr JUndefined"

text \<open>Truthiness, as \<open>!v\<close>, \<open>v && w\<close> and \<open>v || w\<close> read it.\<close>

fun truthy :: "jsval \<Rightarrow> bool" where
  "truthy JUndefined = False"
| "truthy JNull = False"
| "truthy (JBool b) = b"
| "truthy (JNum x) = (x \<noteq> 0)"
| "truthy (JStr s) = (s \<noteq> [])"
| "truthy (JArr xs) = True"
| "truthy (JObj kvs) = True"

definition js_or :: "jsval \<Rightarrow> jsval \<Rightarrow> jsval" where
  "js_or v w = (if truthy v then v else w)"

text \<open>Sequencing of steps that may throw, and \<open>try { body } catch (error) { handler }\<close>.\<close>

definition andThen :: "js_error + 'a \<Rightarrow> ('a \<Rightarrow> js_error + 'b) \<Rightarrow> js_error + 'b" where
  "andThen r f = (case r of Inl e \<Rightarrow> Inl e | Inr v \<Rightarrow> f v)"

definition tryCatch :: "js_error + 'a \<Rightarrow> (js_error \<Rightarrow> js_error + 'a) \<Rightarrow> js_error + 'a" where
  "tryCatch body handler = (case body of Inl e \<Rightarrow> handler e | Inr v \<Rightarrow> Inr v)"

text \<open>The decimal digits of a number, as a template literal prints them.\<close>

definition digitChar :: "nat \<Rightarrow> char" where
  "digitChar d = ''0123456789'' ! (d mod 10)"

fun decimal :: "nat \<Rightarrow> string" where
  "decimal n = (if 10 \<le> n then decimal (n div 10) else []) @ [digitChar n]"

section \<open>The network, as the gateway sees it\<close>

text \<open>
  \<open>fetch(url)\<close> either rejects (no response: a TypeError) or resolves with a response.
  \<open>response.ok\<close> is true exactly for the statuses 200 to 299. \<open>response.json()\<close> rejects
  with a SyntaxError when the body is not JSON (\<open>json = None\<close>) and resolves with the
  parsed value otherwise.
\<close>

record response =
  status :: nat
  statusText :: string
  json :: "jsval option"

definition ok :: "response \<Rightarrow> bool" where
  "ok r = (200 \<le> status r \<and> status r \<le> 299)"

datatype fetch_outcome = NetworkError string | Responded response

type_synonym network = "string \<Rightarrow> fetch_outcome"

definition API_BASE_URL :: string where
  "API_BASE_URL = ''https://fintech-intelligence-pipeline-production.up.railway.app''"

text \<open>
  The first statements of every gateway operation:
  \<^verbatim>\<open>
  const response = await fetch(url);
  if (!response.ok) { throw new Error(`HTTP ${response.status}: ${response.statusText}`); }
  const data = await response.json();
  \<close>
\<close>

definition fetchJson :: "network \<Rightarrow> string \<Rightarrow> js_error + jsval" where
  "fetchJson net url =
     (case net url of
        NetworkError m \<Rightarrow> Inl (TypeError m)
      | Responded r \<Rightarrow>
          if \<not> ok r then Inl (Error (''HTTP '' @ decimal (status r) @ '': '' @ statusText r))
          else (case json r of
                  None \<Rightarrow> Inl (SyntaxError ''Unexpected token in JSON'')
                | Some data \<Rightarrow> Inr data))"

section \<open>DatabaseService: the fallback constants\<close>

definition getFallbackLatestData :: jsval where
  "getFallbackLatestData = JObj [
     (''id'', JNum 1),
     (''date'', JStr ''2025-09-12''),
     (''symbol'', JStr ''AAPL''),
     (''stockData'', JObj [
        (''open'', JNum 229.22),
        (''close'', JNum 234.07),
        (''high'', JNum 234.51),
        (''low'', JNum 229.02),
        (''volume'', JNum 55824216),
        (''vwap'', JNum 231.5),
        (''transactions'', JNum 850000),
        (''change'', JNum 4.85),
        (''changePercent'', JNum 2.12)]),
     (''aiAnalysis'', JObj [
        (''sentiment'', JStr ''bullish''),
        (''riskScore'', JNum 6),
        (''pricePrediction'', JNum 235.0),
        (''recommendations'', JArr [
           JStr ''Buy AAPL due to strong quarterly earnings'',
           JStr ''AAPL is a good long-term investment opportunity'',
           JStr ''The recent price increase is a buying signal'']),
        (''analysis'', JStr ''AAPL shows strong momentum, expect continued growth''),
        (''model'', JStr ''meta-llama/llama-3.2-3b-instruct:free'')])]"

definition getFallbackHistoricalData :: jsval where
  "getFallbackHistoricalData = JArr [
     JObj [(''date'', JStr ''2025-09-10''), (''open'', JNum 232.185), (''close'', JNum 226.79),
           (''high'', JNum 232.42), (''low'', JNum 225.95), (''volume'', JNum 83440810),
           (''vwap'', JNum 229.6)],
     JObj [(''date'', JStr ''2025-09-11''), (''open'', JNum 226.875), (''close'', JNum 230.03),
           (''high'', JNum 230.45), (''low'', JNum 226.65), (''volume'', JNum 50208578),
           (''vwap'', JNum 228.5)],
     JObj [(''date'', JStr ''2025-09-12''), (''open'', JNum 229.22), (''close'', JNum 234.07),
           (''high'', JNum 234.51), (''low'', JNum 229.02), (''volume'', JNum 55824216),
           (''vwap'', JNum 231.5)]]"

definition getFallbackRecommendations :: jsval where
  "getFallbackRecommendations = JArr [
     JObj [(''date'', JStr ''2025-09-12''),
           (''symbol'', JStr ''AAPL''),
           (''sentiment'', JStr ''bullish''),
           (''riskScore'', JNum 6),
           (''pricePrediction'', JNum 235.0),
           (''actualPrice'', JNum 234.07),
           (''recommendations'', JArr [
              JStr ''Buy AAPL due to strong quarterly earnings'',
              JStr ''Good long-term investment'']),
           (''changePercent'', JNum 2.12),
           (''predictionAccuracy'', JNum 99.6)]]"

definition getFallbackMetrics :: jsval where
  "getFallbackMetrics = JObj [
     (''totalDaysAnalyzed'', JNum 7),
     (''totalRecommendations'', JNum 7),
     (''sentimentDistribution'', JObj [(''bullish'', JNum 4), (''bearish'', JNum 3)]),
     (''averageRiskScore'', JNum 6.43),
     (''priceMetrics'', JObj [
        (''minPrice'', JNum 226.79),
        (''maxPrice'', JNum 234.07),
        (''avgPrice'', JNum 230.3),
        (''avgVolume'', JNum 63157868)])]"

section \<open>DatabaseService: the four operations\<close>

text \<open>
  An operation is an \<open>async\<close> method: it issues requests and then either resolves
  (\<open>Inr\<close>) or rejects (\<open>Inl\<close>). The model returns the URLs requested, in order, and the
  settlement. Logging has no effect on either and is left out.
\<close>

type_synonym settled = "string list \<times> (js_error + jsval)"

definition getLatestStockData :: "network \<Rightarrow> settled" where
  "getLatestStockData net =
     (let url = API_BASE_URL @ ''/api/latest'' in
      ([url],
       tryCatch
         (andThen (fetchJson net url) (\<lambda>data.
          andThen (getProp data ''id'') (\<lambda>data_id.
          andThen (getProp data ''date'') (\<lambda>data_date.
          andThen (getProp data ''symbol'') (\<lambda>data_symbol.
          andThen (getProp data ''stockData'') (\<lambda>data_stockData.
          andThen (getProp data ''aiAnalysis'') (\<lambda>data_aiAnalysis.
          Inr (JObj [
            (''id'', js_or data_id (JNum 1)),
            (''date'', data_date),
            (''symbol'', data_symbol),
            (''stockData'', data_stockData),
            (''aiAnalysis'', data_aiAnalysis)]))))))))
         (\<lambda>error. Inr getFallbackLatestData)))"

text \<open>
  \<open>getHistoricalData(days = 30)\<close>: the parameter takes its default when the argument is
  \<open>undefined\<close>, and the body never reads it.
\<close>

definition getHistoricalData :: "network \<Rightarrow> jsval \<Rightarrow> settled" where
  "getHistoricalData net days_arg =
     (let days = (if days_arg = JUndefined then JNum 30 else days_arg);
          url = API_BASE_URL @ ''/api/historical'' in
      ([url],
       tryCatch
         (andThen (fetchJson net url) (\<lambda>data.
          andThen (getProp data ''length'') (\<lambda>data_length.
          Inr data)))
         (\<lambda>error. Inr getFallbackHistoricalData)))"

definition getAllRecommendations :: "network \<Rightarrow> settled" where
  "getAllRecommendations net =
     (let url = API_BASE_URL @ ''/api/recommendations'' in
      ([url],
       tryCatch
         (andThen (fetchJson net url) (\<lambda>data.
          andThen (getProp data ''length'') (\<lambda>data_length.
          Inr data)))
         (\<lambda>error. Inr getFallbackRecommendations)))"

definition getPerformanceMetrics :: "network \<Rightarrow> settled" where
  "getPerformanceMetrics net =
     (let url = API_BASE_URL @ ''/api/metrics'' in
      ([url],
       tryCatch
         (andThen (fetchJson net url) (\<lambda>data. Inr data))
         (\<lambda>error. Inr getFallbackMetrics)))"

section \<open>App: the refresh cycle\<close>

text \<open>
  The state hooks of \<open>App\<close>. \<open>lastUpdated\<close> is a time value in milliseconds; \<open>error\<close> is
  \<open>null\<close> (\<open>None\<close>) or the message string.
\<close>

record app_state =
  latestData :: jsval
  recommendations :: jsval
  metrics :: jsval
  loading :: bool
  error :: "string option"
  lastUpdated :: "int option"

definition initial_app_state :: app_state where
  "initial_app_state =
     \<lparr>latestData = JNull, recommendations = JArr [], metrics = JNull,
      loading = True, error = None, lastUpdated = None\<rparr>"

text \<open>
  \<open>fetchDashboardData\<close>: the array handed to \<open>Promise.all\<close> holds three calls; the
  combined promise fulfils with the three values when all have fulfilled and rejects with
  the error of one that rejected. \<open>now\<close> is what \<open>new Date()\<close> reads when the setters run.
  The result is the list of URLs requested and the state once \<open>finally\<close> has run.
\<close>

definition fetchDashboardData :: "network \<Rightarrow> int \<Rightarrow> app_state \<Rightarrow> string list \<times> app_state" where
  "fetchDashboardData net now st =
     (let st1 = st\<lparr>loading := True, error := None\<rparr>;
          (req1, latest) = getLatestStockData net;
          (req2, recs) = getAllRecommendations net;
          (req3, performanceMetrics) = getPerformanceMetrics net;
          all3 = andThen latest (\<lambda>v1. andThen recs (\<lambda>v2.
                   andThen performanceMetrics (\<lambda>v3. Inr (v1, v2, v3))));
          st2 = (case all3 of
                   Inr (v1, v2, v3) \<Rightarrow>
                     st1\<lparr>latestData := v1, recommendations := v2, metrics := v3,
                         lastUpdated := Some now\<rparr>
                 | Inl err \<Rightarrow> st1\<lparr>error := Some (''Failed to load data: '' @ message err)\<rparr>)
      in (req1 @ req2 @ req3, st2\<lparr>loading := False\<rparr>))"

text \<open>
  The three places that start a cycle: the effect that runs once on mount, the interval
  timer set to \<open>5 * 60 * 1000\<close> milliseconds, and the Refresh button's \<open>handleRefresh\<close>.
  Each calls \<open>fetchDashboardData\<close>.
\<close>

datatype trigger = InitialLoad | PeriodicTimer | ManualRefresh

definition refreshIntervalMs :: int where
  "refreshIntervalMs = 5 * 60 * 1000"

fun refreshCycle :: "trigger \<Rightarrow> network \<Rightarrow> int \<Rightarrow> app_state \<Rightarrow> string list \<times> app_state" where
  "refreshCycle InitialLoad net now st = fetchDashboardData net now st"
| "refreshCycle PeriodicTimer net now st = fetchDashboardData net now st"
| "refreshCycle ManualRefresh net now st = fetchDashboardData net now st"

text \<open>
  What \<open>App\<close> renders, by the order of its \<open>return\<close>s: the spinner, the blocking
  connection error, or the dashboard, with the yellow banner when \<open>error && latestData\<close>.
\<close>

datatype presentation = Loading | HardError | Degraded | Ready

definition presentationState :: "app_state \<Rightarrow> presentation" where
  "presentationState st =
     (let err = (error st \<noteq> None \<and> error st \<noteq> Some []) in
      if loading st \<and> \<not> truthy (latestData st) then Loading
      else if err \<and> \<not> truthy (latestData st) then HardError
      else if err \<and> truthy (latestData st) then Degraded
      else Ready)"

section \<open>The runtime's share: dates and sorting\<close>

text \<open>
  Two things the table leaves to the JavaScript engine, and on which engines differ.
  \<^item> In which order \<open>Array.prototype.sort\<close> hands two elements to the comparator:
    the element being placed first and one already placed second (\<open>compareNewFirst\<close>, as
    V8 does in its insertion and run-counting steps), or the other way round (as a merge
    that compares the left run's element with the right run's).
  \<^item> The local time zone, as minutes east of UTC (taken constant): a date-only string in
    the standard form \<open>YYYY-MM-DD\<close> is midnight UTC, one with an unpadded month or day
    is read by the engine's fallback parser, which V8 takes as midnight local time.
\<close>

record engine =
  compareNewFirst :: bool
  utcOffsetMinutes :: int

definition isDigit :: "char \<Rightarrow> bool" where
  "isDigit c = (48 \<le> (of_char c :: nat) \<and> (of_char c :: nat) \<le> 57)"

definition digitsValue :: "string \<Rightarrow> int" where
  "digitsValue s = foldl (\<lambda>n c. 10 * n + (int (of_char c) - 48)) 0 s"

fun splitOn :: "char \<Rightarrow> string \<Rightarrow> string list" where
  "splitOn c [] = [[]]"
| "splitOn c (x # xs) =
     (if x = c then [] # splitOn c xs
      else (case splitOn c xs of [] \<Rightarrow> [[x]] | w # ws \<Rightarrow> (x # w) # ws))"

text \<open>Days from 1970-01-01 to the civil date \<open>y-m-d\<close> (proleptic Gregorian calendar).\<close>

definition daysFromCivil :: "int \<Rightarrow> int \<Rightarrow> int \<Rightarrow> int" where
  "daysFromCivil y m d =
     (let y' = (if m \<le> 2 then y - 1 else y);
          era = y' div 400;
          yoe = y' - era * 400;
          doy = (153 * (if m > 2 then m - 3 else m + 9) + 2) div 5 + d - 1;
          doe = yoe * 365 + yoe div 4 - yoe div 100 + doy
      in era * 146097 + doe - 719468)"

text \<open>
  The time value of \<open>new Date(s)\<close> for a date-only string \<open>s\<close>, \<open>None\<close> for an Invalid
  Date (time value NaN). The model reads a four-digit year, a month and a day of one or
  two digits, separated by \<open>-\<close>; a day up to 31 past the end of its month rolls over.
  Every other string is outside the model and reads as invalid.
\<close>

definition newDate :: "engine \<Rightarrow> string \<Rightarrow> int option" where
  "newDate eng s =
     (case splitOn (CHR ''-'') s of
        [ys, ms, ds] \<Rightarrow>
          if length ys = 4 \<and> length ms \<in> {1, 2} \<and> length ds \<in> {1, 2}
             \<and> list_all isDigit (ys @ ms @ ds)
             \<and> 1 \<le> digitsValue ms \<and> digitsValue ms \<le> 12
             \<and> 1 \<le> digitsValue ds \<and> digitsValue ds \<le> 31
          then Some ((daysFromCivil (digitsValue ys) (digitsValue ms) 1 + (digitsValue ds - 1))
                       * 86400000
                     - (if length ms = 2 \<and> length ds = 2 then 0
                        else utcOffsetMinutes eng * 60000))
          else None
      | _ \<Rightarrow> None)"

text \<open>
  \<open>[...xs].sort(cmp)\<close> on a fresh copy: each element in turn is placed into the part
  already sorted, in front of the first element the comparator puts it before. Only the
  sign of the comparator's result is read, and the comparator is only ever asked about an
  element and one that came before it in the input. Where the comparator orders the
  elements consistently this is the stable sort the language prescribes.
\<close>

fun insertBy :: "('a \<Rightarrow> 'a \<Rightarrow> bool) \<Rightarrow> 'a \<Rightarrow> 'a list \<Rightarrow> 'a list" where
  "insertBy goesBefore x [] = [x]"
| "insertBy goesBefore x (e # es) = (if goesBefore x e then x # e # es else e # insertBy goesBefore x es)"

definition placedBefore :: "engine \<Rightarrow> ('a \<Rightarrow> 'a \<Rightarrow> int) \<Rightarrow> 'a \<Rightarrow> 'a \<Rightarrow> bool" where
  "placedBefore eng cmp x e = (if compareNewFirst eng then cmp x e < 0 else cmp e x > 0)"

definition arraySort :: "engine \<Rightarrow> ('a \<Rightarrow> 'a \<Rightarrow> int) \<Rightarrow> 'a list \<Rightarrow> 'a list" where
  "arraySort eng cmp xs = foldl (\<lambda>sorted x. insertBy (placedBefore eng cmp) x sorted) [] xs"

text \<open>\<open>String.prototype.toLowerCase\<close>, on the ASCII letters.\<close>

definition lowerChar :: "char \<Rightarrow> char" where
  "lowerChar c =
     (if 65 \<le> (of_char c :: nat) \<and> (of_char c :: nat) \<le> 90 then char_of ((of_char c :: nat) + 32)
      else c)"

definition toLowerCase :: "string \<Rightarrow> string" where
  "toLowerCase s = map lowerChar s"

section \<open>RecommendationsTable\<close>

text \<open>
  One element of the table's \<open>data\<close> array. Its list of recommendation strings is the
  field \<open>recommendationTexts\<close> here, the name \<open>recommendations\<close> being the state hook's.
\<close>

record recommendation =
  date :: string
  symbol :: string
  sentiment :: string
  riskScore :: real
  pricePrediction :: real
  actualPrice :: real
  recommendationTexts :: "string list"
  changePercent :: real
  predictionAccuracy :: real

datatype sort_field = DateField | SentimentField | RiskScoreField

datatype sort_direction = Asc | Desc

record table_state =
  sortField :: sort_field
  sortDirection :: sort_direction
  filterSentiment :: string

definition initial_table_state :: table_state where
  "initial_table_state = \<lparr>sortField = DateField, sortDirection = Desc, filterSentiment = ''all''\<rparr>"

text \<open>The values of the \<open>select\<close>'s options, the only ones \<open>setFilterSentiment\<close> receives.\<close>

definition sentimentOptions :: "string list" where
  "sentimentOptions = [''all'', ''bullish'', ''bearish'', ''neutral'']"

definition setFilterSentiment :: "string \<Rightarrow> table_state \<Rightarrow> table_state" where
  "setFilterSentiment v st = st\<lparr>filterSentiment := v\<rparr>"

definition handleSort :: "sort_field \<Rightarrow> table_state \<Rightarrow> table_state" where
  "handleSort field st =
     (if sortField st = field
      then st\<lparr>sortDirection := (if sortDirection st = Asc then Desc else Asc)\<rparr>
      else st\<lparr>sortField := field, sortDirection := Desc\<rparr>)"

definition filteredData :: "table_state \<Rightarrow> recommendation list \<Rightarrow> recommendation list" where
  "filteredData st data =
     filter (\<lambda>item. if filterSentiment st = ''all'' then True
                     else toLowerCase (sentiment item) = filterSentiment st) data"

text \<open>
  The values the comparator compares: \<open>a[sortField]\<close>, wrapped in a \<open>Date\<close> when the field
  is the date. \<open>>\<close> and \<open><\<close> on two \<open>Date\<close>s compare their time values and are both false
  when one is invalid; on two strings they compare character codes in dictionary order; on two
  numbers their values. Both operands come from the same field, so no other pair occurs.
\<close>

datatype sort_key = DateKey "int option" | StringKey string | NumberKey real

fun stringLess :: "string \<Rightarrow> string \<Rightarrow> bool" where
  "stringLess [] [] = False"
| "stringLess [] (y # ys) = True"
| "stringLess (x # xs) [] = False"
| "stringLess (x # xs) (y # ys) =
     ((of_char x :: nat) < of_char y \<or> (x = y \<and> stringLess xs ys))"

fun keyLess :: "sort_key \<Rightarrow> sort_key \<Rightarrow> bool" where
  "keyLess (DateKey (Some s)) (DateKey (Some t)) = (s < t)"
| "keyLess (StringKey s) (StringKey t) = stringLess s t"
| "keyLess (NumberKey x) (NumberKey y) = (x < y)"
| "keyLess _ _ = False"

definition fieldValue :: "engine \<Rightarrow> sort_field \<Rightarrow> recommendation \<Rightarrow> sort_key" where
  "fieldValue eng field item =
     (case field of
        DateField \<Rightarrow> DateKey (newDate eng (date item))
      | SentimentField \<Rightarrow> StringKey (sentiment item)
      | RiskScoreField \<Rightarrow> NumberKey (riskScore item))"

definition compareRows ::
  "engine \<Rightarrow> sort_field \<Rightarrow> sort_direction \<Rightarrow> recommendation \<Rightarrow> recommendation \<Rightarrow> int" where
  "compareRows eng field dir a b =
     (let aVal = fieldValue eng field a; bVal = fieldValue eng field b in
      if dir = Asc then (if keyLess bVal aVal then 1 else -1)
      else (if keyLess aVal bVal then 1 else -1))"

definition sortedData :: "engine \<Rightarrow> table_state \<Rightarrow> recommendation list \<Rightarrow> recommendation list" where
  "sortedData eng st data =
     arraySort eng (compareRows eng (sortField st) (sortDirection st)) (filteredData st data)"

text \<open>\<open>getRiskBadge\<close>: the class string and the label of the badge.\<close>

definition getRiskBadge :: "real \<Rightarrow> string \<times> string" where
  "getRiskBadge score =
     (if score > 6 then (''bg-red-600/20 text-red-400 border-red-600/30'', ''High'')
      else if score > 3 then (''bg-yellow-600/20 text-yellow-400 border-yellow-600/30'', ''Medium'')
      else (''bg-green-600/20 text-green-400 border-green-600/30'', ''Low''))"

text \<open>The class of the accuracy cell.\<close>

definition accuracyClass :: "real \<Rightarrow> string" where
  "accuracyClass acc =
     (if acc \<ge> 95 then ''text-green-400''
      else if acc \<ge> 90 then ''text-yellow-400''
      else ''text-red-400'')"

section \<open>AIAnalysis\<close>

definition getRiskColor :: "real \<Rightarrow> string" where
  "getRiskColor score =
     (if score \<le> 3 then ''text-green-400 bg-green-600/20''
      else if score \<le> 6 then ''text-yellow-400 bg-yellow-600/20''
      else ''text-red-400 bg-red-600/20'')"

definition getRiskLabel :: "real \<Rightarrow> string" where
  "getRiskLabel score =
     (if score \<le> 3 then ''Low Risk''
      else if score \<le> 6 then ''Medium Risk''
      else ''High Risk'')"

text \<open>The colour of the \<open>i\<close>-th segment of the risk bar, \<open>i\<close> from 1 to 10.\<close>

definition riskBarClass :: "real \<Rightarrow> real \<Rightarrow> string" where
  "riskBarClass score i =
     (if i \<le> score
      then (if score \<le> 3 then ''bg-green-400''
            else if score \<le> 6 then ''bg-yellow-400''
            else ''bg-red-400'')
      else ''bg-gray-600'')"

section \<open>Shapes of the payloads\<close>

text \<open>
  The properties the components read from each payload (the interface's shapes): an
  object that has each of the listed properties with a value other than \<open>undefined\<close>
  and \<open>null\<close>, or an array of such objects.
\<close>

definition propOf :: "jsval \<Rightarrow> string \<Rightarrow> jsval" where
  "propOf v k =
     (case v of
        JObj kvs \<Rightarrow> (case map_of kvs k of None \<Rightarrow> JUndefined | Some w \<Rightarrow> w)
      | _ \<Rightarrow> JUndefined)"

definition hasProps :: "string list \<Rightarrow> jsval \<Rightarrow> bool" where
  "hasProps ks v =
     (case v of
        JObj kvs \<Rightarrow> list_all (\<lambda>k. propOf v k \<noteq> JUndefined \<and> propOf v k \<noteq> JNull) ks
      | _ \<Rightarrow> False)"

definition arrayOf :: "(jsval \<Rightarrow> bool) \<Rightarrow> jsval \<Rightarrow> bool" where
  "arrayOf P v = (case v of JArr xs \<Rightarrow> list_all P xs | _ \<Rightarrow> False)"

definition shapeLatest :: "jsval \<Rightarrow> bool" where
  "shapeLatest v =
     (hasProps [''date'', ''symbol'', ''stockData'', ''aiAnalysis''] v
      \<and> hasProps [''open'', ''close'', ''high'', ''low'', ''volume'', ''vwap'',
                   ''transactions'', ''change'', ''changePercent''] (propOf v ''stockData'')
      \<and> hasProps [''sentiment'', ''riskScore'', ''pricePrediction'', ''recommendations'',
                   ''analysis'', ''model''] (propOf v ''aiAnalysis''))"

definition shapeHistorical :: "jsval \<Rightarrow> bool" where
  "shapeHistorical v =
     arrayOf (hasProps [''date'', ''open'', ''close'', ''high'', ''low'', ''volume'', ''vwap'']) v"

definition shapeRecommendations :: "jsval \<Rightarrow> bool" where
  "shapeRecommendations v =
     arrayOf (hasProps [''date'', ''sentiment'', ''riskScore'', ''pricePrediction'',
                        ''actualPrice'', ''predictionAccuracy'', ''changePercent'',
                        ''recommendations'']) v"

definition shapeMetrics :: "jsval \<Rightarrow> bool" where
  "shapeMetrics v =
     (hasProps [''totalDaysAnalyzed'', ''totalRecommendations'', ''sentimentDistribution'',
                ''averageRiskScore'', ''priceMetrics''] v
      \<and> hasProps [''minPrice'', ''maxPrice'', ''avgPrice'', ''avgVolume'']
           (propOf v ''priceMetrics''))"

text \<open>The three ways a request fails: no response, a status outside 200-299, a body that is not JSON.\<close>

definition fetchFails :: "fetch_outcome \<Rightarrow> bool" where
  "fetchFails outcome =
     (case outcome of
        NetworkError m \<Rightarrow> True
      | Responded r \<Rightarrow> status r < 200 \<or> 299 < status r \<or> json r = None)"

section \<open>Sample inputs\<close>

definition offline :: network where
  "offline url = NetworkError ''Failed to fetch''"

definition respond :: "nat \<Rightarrow> string \<Rightarrow> jsval option \<Rightarrow> fetch_outcome" where
  "respond n phrase body = Responded \<lparr>status = n, statusText = phrase, json = body\<rparr>"

text \<open>A backend on which every endpoint fails, each in its own way.\<close>

definition brokenBackend :: network where
  "brokenBackend url =
     (if url = API_BASE_URL @ ''/api/latest'' then NetworkError ''Failed to fetch''
      else if url = API_BASE_URL @ ''/api/historical'' then respond 500 ''Internal Server Error'' None
      else if url = API_BASE_URL @ ''/api/recommendations'' then respond 200 ''OK'' None
      else respond 404 ''Not Found'' (Some (JObj [])))"

definition sampleLatestBody :: "(string \<times> jsval) list" where
  "sampleLatestBody =
     [(''id'', JNum 7), (''date'', JStr ''2025-09-15''), (''symbol'', JStr ''AAPL''),
      (''stockData'', JObj [(''close'', JNum 236.7)]),
      (''aiAnalysis'', JObj [(''sentiment'', JStr ''neutral''), (''riskScore'', JNum 4)])]"

definition sampleRows :: "jsval list" where
  "sampleRows = [JObj [(''date'', JStr ''2025-09-15''), (''sentiment'', JStr ''neutral'')]]"

text \<open>A backend on which only \<open>/api/metrics\<close> fails.\<close>

definition metricsDown :: network where
  "metricsDown url =
     (if url = API_BASE_URL @ ''/api/latest'' then respond 200 ''OK'' (Some (JObj sampleLatestBody))
      else if url = API_BASE_URL @ ''/api/recommendations'' then respond 200 ''OK'' (Some (JArr sampleRows))
      else respond 503 ''Service Unavailable'' None)"

definition v8 :: engine where
  "v8 = \<lparr>compareNewFirst = True, utcOffsetMinutes = 0\<rparr>"

definition leftFirst :: engine where
  "leftFirst = \<lparr>compareNewFirst = False, utcOffsetMinutes = 0\<rparr>"

definition row :: "string \<Rightarrow> string \<Rightarrow> real \<Rightarrow> recommendation" where
  "row d s risk =
     \<lparr>date = d, symbol = ''AAPL'', sentiment = s, riskScore = risk, pricePrediction = 235,
      actualPrice = 234.07, recommendationTexts = [], changePercent = 2.12,
      predictionAccuracy = 99.6\<rparr>"

section \<open>The gateway never rejects\<close>

lemma tryCatch_resolves:
  "tryCatch body (\<lambda>e. Inr v) = Inr (case body of Inl e \<Rightarrow> v | Inr w \<Rightarrow> w)"
  by (simp add: tryCatch_def split: sum.splits)

lemma fetchJson_fails: "fetchFails (net url) \<Longrightarrow> \<exists>e. fetchJson net url = Inl e"
  by (auto simp: fetchFails_def fetchJson_def ok_def split: fetch_outcome.splits option.splits)

lemma latest_resolves: "\<exists>v. snd (getLatestStockData net) = Inr v"
  by (simp add: getLatestStockData_def tryCatch_resolves Let_def)

lemma latest_fallback:
  "fetchFails (net (API_BASE_URL @ ''/api/latest'')) \<Longrightarrow>
     snd (getLatestStockData net) = Inr getFallbackLatestData"
  using fetchJson_fails [of net "API_BASE_URL @ ''/api/latest''"]
  by (auto simp: getLatestStockData_def tryCatch_def andThen_def Let_def)

lemma historical_resolves: "\<exists>v. snd (getHistoricalData net days) = Inr v"
  by (simp add: getHistoricalData_def tryCatch_resolves Let_def)

lemma historical_fallback:
  "fetchFails (net (API_BASE_URL @ ''/api/historical'')) \<Longrightarrow>
     snd (getHistoricalData net days) = Inr getFallbackHistoricalData"
  using fetchJson_fails [of net "API_BASE_URL @ ''/api/historical''"]
  by (auto simp: getHistoricalData_def tryCatch_def andThen_def Let_def)

lemma recommendations_resolves: "\<exists>v. snd (getAllRecommendations net) = Inr v"
  by (simp add: getAllRecommendations_def tryCatch_resolves Let_def)

lemma recommendations_fallback:
  "fetchFails (net (API_BASE_URL @ ''/api/recommendations'')) \<Longrightarrow>
     snd (getAllRecommendations net) = Inr getFallbackRecommendations"
  using fetchJson_fails [of net "API_BASE_URL @ ''/api/recommendations''"]
  by (auto simp: getAllRecommendations_def tryCatch_def andThen_def Let_def)

lemma metrics_resolves: "\<exists>v. snd (getPerformanceMetrics net) = Inr v"
  by (simp add: getPerformanceMetrics_def tryCatch_resolves Let_def)

lemma metrics_fallback:
  "fetchFails (net (API_BASE_URL @ ''/api/metrics'')) \<Longrightarrow>
     snd (getPerformanceMetrics net) = Inr getFallbackMetrics"
  using fetchJson_fails [of net "API_BASE_URL @ ''/api/metrics''"]
  by (auto simp: getPerformanceMetrics_def tryCatch_def andThen_def Let_def)

lemma fallback_shapes:
  "shapeLatest getFallbackLatestData" "shapeHistorical getFallbackHistoricalData"
  "shapeRecommendations getFallbackRecommendations" "shapeMetrics getFallbackMetrics"
  by (simp_all add: shapeLatest_def shapeHistorical_def shapeRecommendations_def shapeMetrics_def
      getFallbackLatestData_def getFallbackHistoricalData_def getFallbackRecommendations_def
      getFallbackMetrics_def hasProps_def arrayOf_def propOf_def)

text \<open>
  C1. Each of the four operations resolves whatever the network does: its promise is
  fulfilled (\<open>Inr\<close>), never rejected. When the request fails in any of the three ways (no
  response, a status outside 200-299, a body that is not JSON) the value is the
  operation's own fallback constant, the same for the three kinds of failure, and each
  fallback constant has the shape its consumers read.
\<close>

theorem gateway_always_resolves:
  "(\<exists>v. snd (getLatestStockData net) = Inr v)
   \<and> (\<exists>v. snd (getHistoricalData net days) = Inr v)
   \<and> (\<exists>v. snd (getAllRecommendations net) = Inr v)
   \<and> (\<exists>v. snd (getPerformanceMetrics net) = Inr v)
   \<and> (fetchFails (net (API_BASE_URL @ ''/api/latest'')) \<longrightarrow>
        snd (getLatestStockData net) = Inr getFallbackLatestData)
   \<and> (fetchFails (net (API_BASE_URL @ ''/api/historical'')) \<longrightarrow>
        snd (getHistoricalData net days) = Inr getFallbackHistoricalData)
   \<and> (fetchFails (net (API_BASE_URL @ ''/api/recommendations'')) \<longrightarrow>
        snd (getAllRecommendations net) = Inr getFallbackRecommendations)
   \<and> (fetchFails (net (API_BASE_URL @ ''/api/metrics'')) \<longrightarrow>
        snd (getPerformanceMetrics net) = Inr getFallbackMetrics)
   \<and> shapeLatest getFallbackLatestData
   \<and> shapeHistorical getFallbackHistoricalData
   \<and> shapeRecommendations getFallbackRecommendations
   \<and> shapeMetrics getFallbackMetrics"
  using latest_resolves [of net] historical_resolves [of net days]
    recommendations_resolves [of net] metrics_resolves [of net]
    latest_fallback [of net] historical_fallback [of net days]
    recommendations_fallback [of net] metrics_fallback [of net] fallback_shapes
  by blast

lemma brokenBackend_fails:
  "fetchFails (brokenBackend (API_BASE_URL @ ''/api/latest''))"
  "fetchFails (brokenBackend (API_BASE_URL @ ''/api/historical''))"
  "fetchFails (brokenBackend (API_BASE_URL @ ''/api/recommendations''))"
  "fetchFails (brokenBackend (API_BASE_URL @ ''/api/metrics''))"
  by (simp_all add: brokenBackend_def fetchFails_def respond_def)

theorem gateway_always_resolves_witness:
  "fetchFails (brokenBackend (API_BASE_URL @ ''/api/latest''))
   \<and> fetchFails (brokenBackend (API_BASE_URL @ ''/api/historical''))
   \<and> fetchFails (brokenBackend (API_BASE_URL @ ''/api/recommendations''))
   \<and> fetchFails (brokenBackend (API_BASE_URL @ ''/api/metrics''))
   \<and> snd (getLatestStockData brokenBackend) = Inr getFallbackLatestData
   \<and> snd (getHistoricalData brokenBackend JUndefined) = Inr getFallbackHistoricalData
   \<and> snd (getAllRecommendations brokenBackend) = Inr getFallbackRecommendations
   \<and> snd (getPerformanceMetrics brokenBackend) = Inr getFallbackMetrics"
  using gateway_always_resolves [of brokenBackend JUndefined] brokenBackend_fails
  by blast

text \<open>
  C10. \<open>getHistoricalData\<close> does not read its \<open>days\<close> parameter: for any two arguments
  it requests the same single URL, the base URL followed by \<open>/api/historical\<close> with no
  query string, and settles the same way.
\<close>

theorem days_has_no_effect:
  "getHistoricalData net d1 = getHistoricalData net d2
   \<and> fst (getHistoricalData net d1) = [API_BASE_URL @ ''/api/historical'']
   \<and> CHR ''?'' \<notin> set (API_BASE_URL @ ''/api/historical'')"
  by (simp add: getHistoricalData_def Let_def API_BASE_URL_def)

section \<open>The refresh cycle\<close>

lemma refresh_requests:
  "fst (fetchDashboardData net now st) =
     [API_BASE_URL @ ''/api/latest'', API_BASE_URL @ ''/api/recommendations'',
      API_BASE_URL @ ''/api/metrics'']"
  by (simp add: fetchDashboardData_def getLatestStockData_def getAllRecommendations_def
      getPerformanceMetrics_def Let_def split: prod.splits)

lemma refresh_state:
  assumes "snd (getLatestStockData net) = Inr v1"
    and "snd (getAllRecommendations net) = Inr v2"
    and "snd (getPerformanceMetrics net) = Inr v3"
  shows "snd (fetchDashboardData net now st) =
     \<lparr>latestData = v1, recommendations = v2, metrics = v3, loading = False, error = None,
      lastUpdated = Some now\<rparr>"
  using assms
  by (cases "getLatestStockData net"; cases "getAllRecommendations net";
      cases "getPerformanceMetrics net")
     (simp add: fetchDashboardData_def andThen_def Let_def)

lemma refreshCycle_eq: "refreshCycle trig net now st = fetchDashboardData net now st"
  by (cases trig) simp_all

text \<open>
  C2, as the code has it. A refresh cycle, whichever of the three triggers starts it (the
  timer's period being five minutes), calls three of the four operations,
  \<open>getLatestStockData\<close>, \<open>getAllRecommendations\<close> and \<open>getPerformanceMetrics\<close>: the
  requests it issues are theirs, one each, and none goes to \<open>/api/historical\<close>. All three
  fulfil, and once they have the state holds their three values, \<open>lastUpdated\<close> is the
  current time, \<open>loading\<close> is false and \<open>error\<close> is \<open>null\<close>, whatever the state was before.
\<close>

theorem refresh_cycle_three_operations:
  "fst (refreshCycle trig net now st) =
     fst (getLatestStockData net) @ fst (getAllRecommendations net) @ fst (getPerformanceMetrics net)
   \<and> fst (refreshCycle trig net now st) =
     [API_BASE_URL @ ''/api/latest'', API_BASE_URL @ ''/api/recommendations'',
      API_BASE_URL @ ''/api/metrics'']
   \<and> refreshIntervalMs = 300000
   \<and> (\<exists>v1 v2 v3.
         snd (getLatestStockData net) = Inr v1
       \<and> snd (getAllRecommendations net) = Inr v2
       \<and> snd (getPerformanceMetrics net) = Inr v3
       \<and> snd (refreshCycle trig net now st) =
           \<lparr>latestData = v1, recommendations = v2, metrics = v3, loading = False,
            error = None, lastUpdated = Some now\<rparr>)"
proof -
  obtain v1 v2 v3 where v:
    "snd (getLatestStockData net) = Inr v1" "snd (getAllRecommendations net) = Inr v2"
    "snd (getPerformanceMetrics net) = Inr v3"
    using latest_resolves recommendations_resolves metrics_resolves by blast
  have "fst (fetchDashboardData net now st) =
     fst (getLatestStockData net) @ fst (getAllRecommendations net) @ fst (getPerformanceMetrics net)"
    by (simp add: fetchDashboardData_def Let_def split: prod.splits)
  moreover have "refreshIntervalMs = 300000"
    by (simp add: refreshIntervalMs_def)
  ultimately show ?thesis
    using v refresh_requests [of net now st] refresh_state [OF v, of now st]
    unfolding refreshCycle_eq by blast
qed

text \<open>
  C2 as stated fails: the cycle does not call all four operations. The initial load,
  with the network down, issues three requests, and \<open>/api/historical\<close> is not one of them.
\<close>

theorem refresh_cycle_skips_historical:
  "API_BASE_URL @ ''/api/historical'' \<notin> set (fst (refreshCycle InitialLoad offline 0 initial_app_state))
   \<and> length (fst (refreshCycle InitialLoad offline 0 initial_app_state)) = 3"
  by (simp add: refresh_requests)

lemma latest_success:
  assumes "net (API_BASE_URL @ ''/api/latest'') = Responded r" "200 \<le> status r" "status r \<le> 299"
    "json r = Some (JObj kvs)"
  shows "snd (getLatestStockData net) =
     Inr (JObj [(''id'', js_or (propOf (JObj kvs) ''id'') (JNum 1)),
                (''date'', propOf (JObj kvs) ''date''),
                (''symbol'', propOf (JObj kvs) ''symbol''),
                (''stockData'', propOf (JObj kvs) ''stockData''),
                (''aiAnalysis'', propOf (JObj kvs) ''aiAnalysis'')])"
  using assms
  by (simp add: getLatestStockData_def fetchJson_def ok_def tryCatch_def andThen_def Let_def
      propOf_def)

lemma recommendations_success:
  assumes "net (API_BASE_URL @ ''/api/recommendations'') = Responded r" "200 \<le> status r"
    "status r \<le> 299" "json r = Some (JArr rows)"
  shows "snd (getAllRecommendations net) = Inr (JArr rows)"
  using assms
  by (simp add: getAllRecommendations_def fetchJson_def ok_def tryCatch_def andThen_def Let_def)

text \<open>
  C3. When the request to \<open>/api/metrics\<close> fails while \<open>/api/latest\<close> answers 2xx with a
  JSON object and \<open>/api/recommendations\<close> answers 2xx with a JSON array, then
  \<open>getPerformanceMetrics\<close> resolves with the fallback metrics, and the cycle ends with
  \<open>error\<close> still \<open>null\<close>, \<open>latestData\<close> built from the fetched object, \<open>recommendations\<close>
  the fetched array, and the dashboard in its Ready presentation.
\<close>

theorem metrics_failure_alone_is_ready:
  assumes "fetchFails (net (API_BASE_URL @ ''/api/metrics''))"
    and "net (API_BASE_URL @ ''/api/latest'') = Responded r1"
    and "200 \<le> status r1" and "status r1 \<le> 299" and "json r1 = Some (JObj kvs)"
    and "net (API_BASE_URL @ ''/api/recommendations'') = Responded r2"
    and "200 \<le> status r2" and "status r2 \<le> 299" and "json r2 = Some (JArr rows)"
  shows "snd (getPerformanceMetrics net) = Inr getFallbackMetrics
   \<and> snd (fetchDashboardData net now st) =
       \<lparr>latestData = JObj [(''id'', js_or (propOf (JObj kvs) ''id'') (JNum 1)),
                           (''date'', propOf (JObj kvs) ''date''),
                           (''symbol'', propOf (JObj kvs) ''symbol''),
                           (''stockData'', propOf (JObj kvs) ''stockData''),
                           (''aiAnalysis'', propOf (JObj kvs) ''aiAnalysis'')],
        recommendations = JArr rows,
        metrics = getFallbackMetrics,
        loading = False, error = None, lastUpdated = Some now\<rparr>
   \<and> error (snd (fetchDashboardData net now st)) = None
   \<and> presentationState (snd (fetchDashboardData net now st)) = Ready"
proof -
  have m: "snd (getPerformanceMetrics net) = Inr getFallbackMetrics"
    using assms(1) by (rule metrics_fallback)
  have s: "snd (fetchDashboardData net now st) =
       \<lparr>latestData = JObj [(''id'', js_or (propOf (JObj kvs) ''id'') (JNum 1)),
                           (''date'', propOf (JObj kvs) ''date''),
                           (''symbol'', propOf (JObj kvs) ''symbol''),
                           (''stockData'', propOf (JObj kvs) ''stockData''),
                           (''aiAnalysis'', propOf (JObj kvs) ''aiAnalysis'')],
        recommendations = JArr rows,
        metrics = getFallbackMetrics,
        loading = False, error = None, lastUpdated = Some now\<rparr>"
    using latest_success [of net r1 kvs] recommendations_success [of net r2 rows] m assms
    by (simp add: refresh_state)
  show ?thesis
    unfolding s using m by (simp add: presentationState_def)
qed

theorem metrics_failure_alone_is_ready_witness:
  "fetchFails (metricsDown (API_BASE_URL @ ''/api/metrics''))
   \<and> snd (getPerformanceMetrics metricsDown) = Inr getFallbackMetrics
   \<and> snd (fetchDashboardData metricsDown 1757635200000 initial_app_state) =
       \<lparr>latestData = JObj [(''id'', JNum 7), (''date'', JStr ''2025-09-15''),
                           (''symbol'', JStr ''AAPL''),
                           (''stockData'', JObj [(''close'', JNum 236.7)]),
                           (''aiAnalysis'', JObj [(''sentiment'', JStr ''neutral''),
                                                  (''riskScore'', JNum 4)])],
        recommendations = JArr sampleRows,
        metrics = getFallbackMetrics,
        loading = False, error = None, lastUpdated = Some 1757635200000\<rparr>
   \<and> presentationState (snd (fetchDashboardData metricsDown 1757635200000 initial_app_state)) = Ready"
proof -
  have f: "fetchFails (metricsDown (API_BASE_URL @ ''/api/metrics''))"
    by (simp add: metricsDown_def fetchFails_def respond_def)
  have l: "metricsDown (API_BASE_URL @ ''/api/latest'') =
      Responded \<lparr>status = 200, statusText = ''OK'', json = Some (JObj sampleLatestBody)\<rparr>"
    by (simp add: metricsDown_def respond_def)
  have r: "metricsDown (API_BASE_URL @ ''/api/recommendations'') =
      Responded \<lparr>status = 200, statusText = ''OK'', json = Some (JArr sampleRows)\<rparr>"
    by (simp add: metricsDown_def respond_def)
  show ?thesis
    using f metrics_failure_alone_is_ready [OF f l _ _ _ r, of sampleLatestBody sampleRows
        1757635200000 initial_app_state]
    by (simp add: propOf_def sampleLatestBody_def js_or_def presentationState_def)
qed

section \<open>The table: sort state\<close>

text \<open>
  C6, as the code has it. When \<open>f\<close> is the current sort field, two calls of
  \<open>handleSort f\<close> in a row restore the sort direction, and with it the whole table state.
  When \<open>f\<close> is another field, the first call makes \<open>f\<close> the sort field with direction
  \<open>desc\<close>, and the second flips that to \<open>asc\<close>, whatever the direction was before.
\<close>

theorem handleSort_twice:
  "(sortField st = f \<longrightarrow> handleSort f (handleSort f st) = st)
   \<and> (sortField st \<noteq> f \<longrightarrow>
        handleSort f st = st\<lparr>sortField := f, sortDirection := Desc\<rparr>
        \<and> handleSort f (handleSort f st) = st\<lparr>sortField := f, sortDirection := Asc\<rparr>)"
  by (cases "sortDirection st") (simp_all add: handleSort_def)

theorem handleSort_twice_witness:
  "sortField initial_table_state = DateField
   \<and> handleSort DateField (handleSort DateField initial_table_state) = initial_table_state
   \<and> sortField initial_table_state \<noteq> RiskScoreField
   \<and> handleSort RiskScoreField initial_table_state =
       \<lparr>sortField = RiskScoreField, sortDirection = Desc, filterSentiment = ''all''\<rparr>
   \<and> handleSort RiskScoreField (handleSort RiskScoreField initial_table_state) =
       \<lparr>sortField = RiskScoreField, sortDirection = Asc, filterSentiment = ''all''\<rparr>"
  using handleSort_twice [of initial_table_state DateField]
    handleSort_twice [of initial_table_state RiskScoreField]
  by (simp add: initial_table_state_def handleSort_def)

text \<open>
  C6 as stated, for every field, fails: from the initial state (date, desc), two calls for
  the sentiment column leave the direction \<open>asc\<close>, not the original \<open>desc\<close>.
\<close>

theorem other_field_twice_ends_ascending:
  "sortDirection (handleSort SentimentField (handleSort SentimentField initial_table_state))
     \<noteq> sortDirection initial_table_state"
  by (simp add: handleSort_def initial_table_state_def)

section \<open>Badges\<close>

text \<open>
  C8. The table's risk badge reads Low for a score of at most 3, Medium above 3 and up to
  6 (so for 4, 5 and 6), High above 6; in particular 3 is Low, 4 and 6 are Medium, 7 is
  High. The analysis panel bands the score the same way: its label is the badge's label
  followed by \<open>Risk\<close>, and its colour, the badge's colour and the lit segments of the risk
  bar are green, yellow and red on exactly the Low, Medium and High scores.
\<close>

theorem risk_bands:
  "(score \<le> 3 \<longrightarrow> snd (getRiskBadge score) = ''Low'')
   \<and> (3 < score \<and> score \<le> 6 \<longrightarrow> snd (getRiskBadge score) = ''Medium'')
   \<and> (6 < score \<longrightarrow> snd (getRiskBadge score) = ''High'')
   \<and> snd (getRiskBadge 3) = ''Low'' \<and> snd (getRiskBadge 4) = ''Medium''
   \<and> snd (getRiskBadge 6) = ''Medium'' \<and> snd (getRiskBadge 7) = ''High''
   \<and> getRiskLabel score = snd (getRiskBadge score) @ '' Risk''
   \<and> (getRiskColor score = ''text-green-400 bg-green-600/20'') = (snd (getRiskBadge score) = ''Low'')
   \<and> (getRiskColor score = ''text-yellow-400 bg-yellow-600/20'') = (snd (getRiskBadge score) = ''Medium'')
   \<and> (getRiskColor score = ''text-red-400 bg-red-600/20'') = (snd (getRiskBadge score) = ''High'')
   \<and> (fst (getRiskBadge score) = ''bg-green-600/20 text-green-400 border-green-600/30'') = (snd (getRiskBadge score) = ''Low'')
   \<and> (fst (getRiskBadge score) = ''bg-yellow-600/20 text-yellow-400 border-yellow-600/30'') = (snd (getRiskBadge score) = ''Medium'')
   \<and> (fst (getRiskBadge score) = ''bg-red-600/20 text-red-400 border-red-600/30'') = (snd (getRiskBadge score) = ''High'')
   \<and> (i \<le> score \<longrightarrow>
        (riskBarClass score i = ''bg-green-400'') = (snd (getRiskBadge score) = ''Low'')
      \<and> (riskBarClass score i = ''bg-yellow-400'') = (snd (getRiskBadge score) = ''Medium'')
      \<and> (riskBarClass score i = ''bg-red-400'') = (snd (getRiskBadge score) = ''High''))"
  by (simp add: getRiskBadge_def getRiskLabel_def getRiskColor_def riskBarClass_def)

theorem risk_bands_witness:
  "(5::real) \<le> 6 \<and> 3 < (5::real) \<and> (1::real) \<le> 5
   \<and> snd (getRiskBadge 5) = ''Medium'' \<and> getRiskLabel 5 = ''Medium Risk''
   \<and> getRiskColor 5 = ''text-yellow-400 bg-yellow-600/20''
   \<and> riskBarClass 5 1 = ''bg-yellow-400''"
  using risk_bands [of 5 1] by simp

text \<open>
  C9. The accuracy cell is green for an accuracy of at least 95, yellow from 90 up to but
  not including 95, red below 90; 94.99 is yellow and 95.00 is green.
\<close>

theorem accuracy_tiers:
  "(acc \<ge> 95 \<longrightarrow> accuracyClass acc = ''text-green-400'')
   \<and> (acc \<ge> 90 \<and> acc < 95 \<longrightarrow> accuracyClass acc = ''text-yellow-400'')
   \<and> (acc < 90 \<longrightarrow> accuracyClass acc = ''text-red-400'')
   \<and> accuracyClass 94.99 = ''text-yellow-400''
   \<and> accuracyClass 95.00 = ''text-green-400''"
  by (simp add: accuracyClass_def)

theorem accuracy_tiers_witness:
  "(92.5::real) \<ge> 90 \<and> (92.5::real) < 95 \<and> accuracyClass 92.5 = ''text-yellow-400''"
  using accuracy_tiers [of "92.5"] by simp

section \<open>The table: visible rows\<close>

lemma mset_insertBy: "mset (insertBy goesBefore x es) = add_mset x (mset es)"
  by (induction es) simp_all

lemma mset_foldl_insertBy:
  "mset (foldl (\<lambda>sorted x. insertBy goesBefore x sorted) acc xs) = mset acc + mset xs"
  by (induction xs arbitrary: acc) (simp_all add: mset_insertBy)

lemma mset_arraySort: "mset (arraySort eng cmp xs) = mset xs"
  by (simp add: arraySort_def mset_foldl_insertBy)

lemma toLowerCase_options: "v \<in> set sentimentOptions \<Longrightarrow> toLowerCase v = v"
  by (auto simp: sentimentOptions_def toLowerCase_def lowerChar_def)

text \<open>
  C4. For each value \<open>v\<close> the filter can take (the options of the \<open>select\<close>), whatever the
  engine and the sort state: with \<open>v = all\<close> the visible rows are all the records, and
  otherwise they are exactly the records whose sentiment equals \<open>v\<close> up to letter case,
  each as often as it occurs in the data. Setting the filter leaves the sort field and
  the sort direction as they were.
\<close>

theorem filter_shows_matching_rows:
  assumes "v \<in> set sentimentOptions"
  shows "(v = ''all'' \<longrightarrow> mset (sortedData eng (setFilterSentiment v st) data) = mset data)
   \<and> (v \<noteq> ''all'' \<longrightarrow>
        mset (sortedData eng (setFilterSentiment v st) data) =
        mset (filter (\<lambda>item. toLowerCase (sentiment item) = toLowerCase v) data))
   \<and> sortField (setFilterSentiment v st) = sortField st
   \<and> sortDirection (setFilterSentiment v st) = sortDirection st"
  using toLowerCase_options [OF assms]
  by (simp add: sortedData_def mset_arraySort filteredData_def setFilterSentiment_def)

theorem filter_shows_matching_rows_witness:
  "''bearish'' \<in> set sentimentOptions \<and> ''bearish'' \<noteq> ''all''
   \<and> mset (sortedData v8 (setFilterSentiment ''bearish'' initial_table_state)
        [row ''2025-09-10'' ''bullish'' 6, row ''2025-09-11'' ''Bearish'' 7,
         row ''2025-09-12'' ''bearish'' 8])
     = {#row ''2025-09-11'' ''Bearish'' 7, row ''2025-09-12'' ''bearish'' 8#}"
proof -
  have m: "''bearish'' \<in> set sentimentOptions"
    by (simp add: sentimentOptions_def)
  have l: "toLowerCase ''bullish'' = ''bullish''" "toLowerCase ''Bearish'' = ''bearish''"
    "toLowerCase ''bearish'' = ''bearish''"
    by code_simp+
  show ?thesis
    using m filter_shows_matching_rows [OF m, of v8 initial_table_state
        "[row ''2025-09-10'' ''bullish'' 6, row ''2025-09-11'' ''Bearish'' 7,
          row ''2025-09-12'' ''bearish'' 8]"]
    by (simp add: row_def l)
qed

section \<open>The comparator on equal keys\<close>

text \<open>
  The comparator answers 1 or -1 and never 0. On two rows with the same key it answers -1
  whichever comes first, so each is to go before the other, and the order the two end up
  in is the order in which the engine happened to ask.
\<close>

lemma compareRows_never_zero: "compareRows eng field dir a b \<noteq> 0"
  by (simp add: compareRows_def Let_def)

lemma stringLess_irrefl: "\<not> stringLess s s"
  by (induction s) simp_all

lemma keyLess_irrefl: "\<not> keyLess k k"
proof (cases k)
  case (DateKey t)
  then show ?thesis by (cases t) simp_all
qed (simp_all add: stringLess_irrefl)

lemma compareRows_tie:
  "fieldValue eng field a = fieldValue eng field b \<Longrightarrow>
     compareRows eng field dir a b = -1 \<and> compareRows eng field dir b a = -1"
  by (simp add: compareRows_def Let_def keyLess_irrefl)

lemma tie_order_follows_engine:
  assumes "fieldValue eng (sortField st) a = fieldValue eng (sortField st) b"
    and "filterSentiment st = ''all''"
  shows "sortedData eng st [a, b] = (if compareNewFirst eng then [b, a] else [a, b])"
  using compareRows_tie [OF assms(1)] assms(2)
  by (simp add: sortedData_def filteredData_def arraySort_def placedBefore_def)

lemma newDate_samples:
  "newDate eng ''2025-09-12'' = Some 1757635200000"
  "newDate eng ''2025-09-1'' = Some (1756684800000 - utcOffsetMinutes eng * 60000)"
  "newDate eng ''2025-09-2'' = Some (1756771200000 - utcOffsetMinutes eng * 60000)"
  by (simp_all add: newDate_def digitsValue_def daysFromCivil_def isDigit_def)

text \<open>
  C5 at a failing input: two records of the same date under the default sort (date,
  desc). The comparator puts each before the other; with the comparator called as V8
  calls it the two rows come out in reverse order, with the arguments the other way round
  they keep their order. The order of equal keys is not the input's.
\<close>

theorem equal_dates_come_out_reversed:
  "compareRows v8 DateField Desc (row ''2025-09-12'' ''bullish'' 6) (row ''2025-09-12'' ''bearish'' 4) = -1
   \<and> compareRows v8 DateField Desc (row ''2025-09-12'' ''bearish'' 4) (row ''2025-09-12'' ''bullish'' 6) = -1
   \<and> sortedData v8 initial_table_state
        [row ''2025-09-12'' ''bullish'' 6, row ''2025-09-12'' ''bearish'' 4]
      = [row ''2025-09-12'' ''bearish'' 4, row ''2025-09-12'' ''bullish'' 6]
   \<and> sortedData leftFirst initial_table_state
        [row ''2025-09-12'' ''bullish'' 6, row ''2025-09-12'' ''bearish'' 4]
      = [row ''2025-09-12'' ''bullish'' 6, row ''2025-09-12'' ''bearish'' 4]"
  by (simp add: sortedData_def filteredData_def arraySort_def placedBefore_def compareRows_def
      fieldValue_def newDate_samples row_def v8_def leftFirst_def initial_table_state_def)

section \<open>Sorting by date\<close>

lemma compareRows_date:
  assumes "newDate eng (date x) = Some s" "newDate eng (date y) = Some t"
  shows "(compareRows eng DateField Asc x y = 1) = (t < s)"
    and "(compareRows eng DateField Asc x y = -1) = (s \<le> t)"
    and "(compareRows eng DateField Desc x y = 1) = (s < t)"
    and "(compareRows eng DateField Desc x y = -1) = (t \<le> s)"
  using assms by (auto simp: compareRows_def fieldValue_def Let_def)

lemma set_insertBy: "set (insertBy goesBefore x es) = insert x (set es)"
  by (induction es) auto

lemma sorted_insertBy:
  assumes "sorted_wrt (\<lambda>a b. k a \<le> k b) es"
    and "\<And>e. e \<in> set es \<Longrightarrow> goesBefore x e \<Longrightarrow> k x \<le> k e"
    and "\<And>e. e \<in> set es \<Longrightarrow> \<not> goesBefore x e \<Longrightarrow> k e \<le> k x"
  shows "sorted_wrt (\<lambda>a b. (k a :: int) \<le> k b) (insertBy goesBefore x es)"
  using assms
proof (induction es)
  case Nil
  then show ?case by simp
next
  case (Cons e es)
  show ?case
  proof (cases "goesBefore x e")
    case True
    then have "k x \<le> k e" using Cons.prems(2) by simp
    moreover have "\<forall>y\<in>set es. k e \<le> k y" using Cons.prems(1) by simp
    ultimately have "\<forall>y\<in>set (e # es). k x \<le> k y" by fastforce
    with True Cons.prems(1) show ?thesis by simp
  next
    case False
    then have "k e \<le> k x" using Cons.prems(3) by simp
    moreover have "sorted_wrt (\<lambda>a b. k a \<le> k b) (insertBy goesBefore x es)"
      using Cons.IH Cons.prems by simp
    ultimately show ?thesis
      using False Cons.prems(1) by (simp add: set_insertBy)
  qed
qed

lemma sorted_foldl_insertBy:
  assumes "sorted_wrt (\<lambda>a b. k a \<le> k b) acc"
    and "\<And>x e. goesBefore x e \<Longrightarrow> x \<in> set acc \<union> set xs \<Longrightarrow> e \<in> set acc \<union> set xs \<Longrightarrow> k x \<le> k e"
    and "\<And>x e. \<not> goesBefore x e \<Longrightarrow> x \<in> set acc \<union> set xs \<Longrightarrow> e \<in> set acc \<union> set xs \<Longrightarrow> k e \<le> k x"
  shows "sorted_wrt (\<lambda>a b. (k a :: int) \<le> k b)
           (foldl (\<lambda>sorted x. insertBy goesBefore x sorted) acc xs)"
  using assms
proof (induction xs arbitrary: acc)
  case Nil
  then show ?case by simp
next
  case (Cons x xs)
  have "sorted_wrt (\<lambda>a b. k a \<le> k b) (insertBy goesBefore x acc)"
    using Cons.prems by (intro sorted_insertBy) auto
  then show ?case
    using Cons.prems(2,3) by (simp, intro Cons.IH) (auto simp: set_insertBy)
qed

lemma placedBefore_date_asc:
  assumes "newDate eng (date x) = Some s" and "newDate eng (date e) = Some t"
  shows "placedBefore eng (compareRows eng DateField Asc) x e =
           (if compareNewFirst eng then s \<le> t else s < t)"
  using assms by (auto simp: placedBefore_def compareRows_def fieldValue_def)

lemma date_sort_ascending:
  assumes "list_all (\<lambda>r. newDate eng (date r) \<noteq> None) rows"
  shows "sorted_wrt (\<lambda>a b. the (newDate eng (date a)) \<le> the (newDate eng (date b)))
           (arraySort eng (compareRows eng DateField Asc) rows)"
  unfolding arraySort_def
proof (rule sorted_foldl_insertBy)
  show "sorted_wrt (\<lambda>a b. the (newDate eng (date a)) \<le> the (newDate eng (date b))) []"
    by simp
next
  fix x e
  assume p: "placedBefore eng (compareRows eng DateField Asc) x e"
    and "x \<in> set [] \<union> set rows" and "e \<in> set [] \<union> set rows"
  then obtain s t where "newDate eng (date x) = Some s" "newDate eng (date e) = Some t"
    using assms unfolding list_all_iff by fastforce
  then show "the (newDate eng (date x)) \<le> the (newDate eng (date e))"
    using p by (simp add: placedBefore_date_asc split: if_splits)
next
  fix x e
  assume p: "\<not> placedBefore eng (compareRows eng DateField Asc) x e"
    and "x \<in> set [] \<union> set rows" and "e \<in> set [] \<union> set rows"
  then obtain s t where "newDate eng (date x) = Some s" "newDate eng (date e) = Some t"
    using assms unfolding list_all_iff by fastforce
  then show "the (newDate eng (date e)) \<le> the (newDate eng (date x))"
    using p by (simp add: placedBefore_date_asc split: if_splits)
qed

lemma placedBefore_date_desc:
  assumes "newDate eng (date x) = Some s" and "newDate eng (date e) = Some t"
  shows "placedBefore eng (compareRows eng DateField Desc) x e =
           (if compareNewFirst eng then t \<le> s else t < s)"
  using assms by (auto simp: placedBefore_def compareRows_def fieldValue_def)

lemma date_sort_descending:
  assumes "list_all (\<lambda>r. newDate eng (date r) \<noteq> None) rows"
  shows "sorted_wrt (\<lambda>a b. the (newDate eng (date b)) \<le> the (newDate eng (date a)))
           (arraySort eng (compareRows eng DateField Desc) rows)"
proof -
  have "sorted_wrt (\<lambda>a b. - the (newDate eng (date a)) \<le> - the (newDate eng (date b)))
          (foldl (\<lambda>sorted x. insertBy (placedBefore eng (compareRows eng DateField Desc)) x sorted)
             [] rows)"
  proof (rule sorted_foldl_insertBy)
    show "sorted_wrt (\<lambda>a b. - the (newDate eng (date a)) \<le> - the (newDate eng (date b))) []"
      by simp
  next
    fix x e
    assume p: "placedBefore eng (compareRows eng DateField Desc) x e"
      and "x \<in> set [] \<union> set rows" and "e \<in> set [] \<union> set rows"
    then obtain s t where "newDate eng (date x) = Some s" "newDate eng (date e) = Some t"
      using assms unfolding list_all_iff by fastforce
    then show "- the (newDate eng (date x)) \<le> - the (newDate eng (date e))"
      using p by (simp add: placedBefore_date_desc split: if_splits)
  next
    fix x e
    assume p: "\<not> placedBefore eng (compareRows eng DateField Desc) x e"
      and "x \<in> set [] \<union> set rows" and "e \<in> set [] \<union> set rows"
    then obtain s t where "newDate eng (date x) = Some s" "newDate eng (date e) = Some t"
      using assms unfolding list_all_iff by fastforce
    then show "- the (newDate eng (date e)) \<le> - the (newDate eng (date x))"
      using p by (simp add: placedBefore_date_desc split: if_splits)
  qed
  then show ?thesis
    by (simp add: arraySort_def)
qed

lemma filteredData_valid:
  "list_all P rows \<Longrightarrow> list_all P (filteredData tst rows)"
  by (simp add: filteredData_def list_all_iff)

text \<open>
  C7. Sorting by date compares time values, not strings, in both directions: on two rows
  whose dates parse, the ascending comparator answers 1 exactly when the first is the
  later instant and the descending comparator exactly when it is the earlier one; and
  whatever the filter, the date sort of rows whose dates all parse lists them from the
  earliest instant to the latest when ascending and from the latest to the earliest when
  descending. Three records dated 2025-09-12, 2025-09-1 and 2025-09-2 come out as
  1 September, 2 September, 12 September when sorted by date ascending, and in the
  opposite order when descending, on either calling order of the comparator and in any
  time zone, although as strings \<open>2025-09-12\<close> is below \<open>2025-09-2\<close>.
\<close>

theorem date_sort_is_chronological:
  assumes "date a = ''2025-09-12''" and "date b = ''2025-09-1''" and "date c = ''2025-09-2''"
    and "- 1440 < utcOffsetMinutes eng" and "utcOffsetMinutes eng < 1440"
    and "sortField st = DateField" and "filterSentiment st = ''all''"
  shows "(sortDirection st = Asc \<longrightarrow> sortedData eng st [a, b, c] = [b, c, a])
   \<and> (sortDirection st = Desc \<longrightarrow> sortedData eng st [a, b, c] = [a, c, b])
   \<and> stringLess (date a) (date c)
   \<and> (newDate eng (date x) = Some s \<and> newDate eng (date y) = Some t \<longrightarrow>
        (compareRows eng DateField Asc x y = 1) = (t < s)
      \<and> (compareRows eng DateField Asc x y = -1) = (s \<le> t)
      \<and> (compareRows eng DateField Desc x y = 1) = (s < t)
      \<and> (compareRows eng DateField Desc x y = -1) = (t \<le> s))
   \<and> (sortField tst = DateField \<and> list_all (\<lambda>r. newDate eng (date r) \<noteq> None) rows \<longrightarrow>
        (sortDirection tst = Asc \<longrightarrow>
           sorted_wrt (\<lambda>p q. the (newDate eng (date p)) \<le> the (newDate eng (date q)))
             (sortedData eng tst rows))
      \<and> (sortDirection tst = Desc \<longrightarrow>
           sorted_wrt (\<lambda>p q. the (newDate eng (date q)) \<le> the (newDate eng (date p)))
             (sortedData eng tst rows)))"
proof -
  have ab: "compareRows eng DateField Asc a b = 1" "compareRows eng DateField Asc b a = -1"
    "compareRows eng DateField Desc a b = -1" "compareRows eng DateField Desc b a = 1"
    using assms(1,2,4) by (simp_all add: compareRows_def fieldValue_def newDate_samples)
  have ac: "compareRows eng DateField Asc a c = 1" "compareRows eng DateField Asc c a = -1"
    "compareRows eng DateField Desc a c = -1" "compareRows eng DateField Desc c a = 1"
    using assms(1,3,4) by (simp_all add: compareRows_def fieldValue_def newDate_samples)
  have bc: "compareRows eng DateField Asc c b = 1" "compareRows eng DateField Asc b c = -1"
    "compareRows eng DateField Desc c b = -1" "compareRows eng DateField Desc b c = 1"
    using assms(2,3) by (simp_all add: compareRows_def fieldValue_def newDate_samples)
  have up: "sortDirection st = Asc \<longrightarrow> sortedData eng st [a, b, c] = [b, c, a]"
    using assms(6,7) ab ac bc
    by (simp add: sortedData_def filteredData_def arraySort_def placedBefore_def)
  have down: "sortDirection st = Desc \<longrightarrow> sortedData eng st [a, b, c] = [a, c, b]"
    using assms(6,7) ab ac bc
    by (simp add: sortedData_def filteredData_def arraySort_def placedBefore_def)
  have lex: "stringLess (date a) (date c)"
    using assms(1,3) by simp
  have cmp: "newDate eng (date x) = Some s \<and> newDate eng (date y) = Some t \<longrightarrow>
        (compareRows eng DateField Asc x y = 1) = (t < s)
      \<and> (compareRows eng DateField Asc x y = -1) = (s \<le> t)
      \<and> (compareRows eng DateField Desc x y = 1) = (s < t)
      \<and> (compareRows eng DateField Desc x y = -1) = (t \<le> s)"
    using compareRows_date [of eng x s y t] by blast
  have srt: "sortField tst = DateField \<and> list_all (\<lambda>r. newDate eng (date r) \<noteq> None) rows \<longrightarrow>
        (sortDirection tst = Asc \<longrightarrow>
           sorted_wrt (\<lambda>p q. the (newDate eng (date p)) \<le> the (newDate eng (date q)))
             (sortedData eng tst rows))
      \<and> (sortDirection tst = Desc \<longrightarrow>
           sorted_wrt (\<lambda>p q. the (newDate eng (date q)) \<le> the (newDate eng (date p)))
             (sortedData eng tst rows))"
    using date_sort_ascending [of eng "filteredData tst rows"]
      date_sort_descending [of eng "filteredData tst rows"]
      filteredData_valid [of "\<lambda>r. newDate eng (date r) \<noteq> None" rows tst]
    by (simp add: sortedData_def)
  from up down lex cmp srt show ?thesis
    by (intro conjI)
qed

theorem date_sort_is_chronological_witness:
  "- 1440 < utcOffsetMinutes v8 \<and> utcOffsetMinutes v8 < 1440
   \<and> sortedData v8 \<lparr>sortField = DateField, sortDirection = Asc, filterSentiment = ''all''\<rparr>
        [row ''2025-09-12'' ''bullish'' 6, row ''2025-09-1'' ''bearish'' 7,
         row ''2025-09-2'' ''neutral'' 5]
      = [row ''2025-09-1'' ''bearish'' 7, row ''2025-09-2'' ''neutral'' 5,
         row ''2025-09-12'' ''bullish'' 6]
   \<and> sortedData v8 initial_table_state
        [row ''2025-09-12'' ''bullish'' 6, row ''2025-09-1'' ''bearish'' 7,
         row ''2025-09-2'' ''neutral'' 5]
      = [row ''2025-09-12'' ''bullish'' 6, row ''2025-09-2'' ''neutral'' 5,
         row ''2025-09-1'' ''bearish'' 7]
   \<and> newDate v8 ''2025-09-1'' = Some 1756684800000
   \<and> newDate v8 ''2025-09-12'' = Some 1757635200000
   \<and> compareRows v8 DateField Asc (row ''2025-09-12'' ''bullish'' 6)
        (row ''2025-09-1'' ''bearish'' 7) = 1
   \<and> compareRows v8 DateField Desc (row ''2025-09-12'' ''bullish'' 6)
        (row ''2025-09-1'' ''bearish'' 7) = -1
   \<and> list_all (\<lambda>r. newDate v8 (date r) \<noteq> None)
        [row ''2025-09-1'' ''bullish'' 6, row ''2025-09-12'' ''bearish'' 4]
   \<and> sorted_wrt (\<lambda>p q. the (newDate v8 (date p)) \<le> the (newDate v8 (date q)))
        (sortedData v8 \<lparr>sortField = DateField, sortDirection = Asc, filterSentiment = ''all''\<rparr>
           [row ''2025-09-1'' ''bullish'' 6, row ''2025-09-12'' ''bearish'' 4])
   \<and> sorted_wrt (\<lambda>p q. the (newDate v8 (date q)) \<le> the (newDate v8 (date p)))
        (sortedData v8 initial_table_state
           [row ''2025-09-1'' ''bullish'' 6, row ''2025-09-12'' ''bearish'' 4])"
proof -
  have v: "list_all (\<lambda>r. newDate v8 (date r) \<noteq> None)
        [row ''2025-09-1'' ''bullish'' 6, row ''2025-09-12'' ''bearish'' 4]"
    by (simp add: row_def newDate_samples)
  have z: "- 1440 < utcOffsetMinutes v8" "utcOffsetMinutes v8 < 1440"
    by (simp_all add: v8_def)
  have i: "sortField initial_table_state = DateField" "sortDirection initial_table_state = Desc"
    "filterSentiment initial_table_state = ''all''"
    by (simp_all add: initial_table_state_def)
  have up: "sortDirection \<lparr>sortField = DateField, sortDirection = Asc, filterSentiment = ''all''\<rparr> = Asc"
    "sortField \<lparr>sortField = DateField, sortDirection = Asc, filterSentiment = ''all''\<rparr> = DateField"
    "filterSentiment \<lparr>sortField = DateField, sortDirection = Asc, filterSentiment = ''all''\<rparr> = ''all''"
    by simp_all
  have d: "date (row ''2025-09-12'' ''bullish'' 6) = ''2025-09-12''"
    "date (row ''2025-09-1'' ''bearish'' 7) = ''2025-09-1''"
    "date (row ''2025-09-2'' ''neutral'' 5) = ''2025-09-2''"
    by (simp_all add: row_def)
  have n: "newDate v8 (date (row ''2025-09-12'' ''bullish'' 6)) = Some 1757635200000"
    "newDate v8 (date (row ''2025-09-1'' ''bearish'' 7)) = Some 1756684800000"
    "newDate v8 ''2025-09-1'' = Some 1756684800000"
    "newDate v8 ''2025-09-12'' = Some 1757635200000"
    by (simp_all add: row_def newDate_samples v8_def)
  note asc = date_sort_is_chronological [OF d z up(2,3),
      of "row ''2025-09-12'' ''bullish'' 6" 1757635200000 "row ''2025-09-1'' ''bearish'' 7"
      1756684800000 "\<lparr>sortField = DateField, sortDirection = Asc, filterSentiment = ''all''\<rparr>"
      "[row ''2025-09-1'' ''bullish'' 6, row ''2025-09-12'' ''bearish'' 4]"]
  note desc = date_sort_is_chronological [OF d z i(1,3),
      of "row ''2025-09-12'' ''bullish'' 6" 1757635200000 "row ''2025-09-1'' ''bearish'' 7"
      1756684800000 initial_table_state
      "[row ''2025-09-1'' ''bullish'' 6, row ''2025-09-12'' ''bearish'' 4]"]
  show ?thesis
    using asc desc v z i up n by simp
qed

end
